theory Spec2Isabelle
  imports Main "HOL-Library.Word" "HOL-Library.Sublist"
begin

section \<open>JavaScript strings\<close>

text \<open>
  A JavaScript string is a sequence of UTF-16 code units. The messages of the source
  are ASCII literals; \<open>lit\<close> turns an ASCII literal into code units.
\<close>

type_synonym jsstring = "16 word list"

definition lit :: "string \<Rightarrow> jsstring" where
  "lit s = map (\<lambda>c. of_nat (of_char c)) s"

text \<open>
  \<open>String.prototype.trim\<close> removes leading and trailing code units that are
  ECMAScript WhiteSpace or LineTerminator: TAB, LF, VT, FF, CR, SPACE, NBSP, U+1680,
  U+2000 to U+200A, U+2028, U+2029, U+202F, U+205F, U+3000 and U+FEFF.
\<close>

definition isWhiteSpace :: "16 word \<Rightarrow> bool" where
  "isWhiteSpace c =
     (c \<in> set [0x09, 0x0A, 0x0B, 0x0C, 0x0D, 0x20, 0xA0, 0x1680,
                0x2028, 0x2029, 0x202F, 0x205F, 0x3000, 0xFEFF]
      \<or> (0x2000 \<le> c \<and> c \<le> 0x200A))"

definition trim :: "jsstring \<Rightarrow> jsstring" where
  "trim s = rev (dropWhile isWhiteSpace (rev (dropWhile isWhiteSpace s)))"

text \<open>The template literal \<open>${i}\<close> of a loop index: its decimal digits.\<close>

fun digits :: "nat \<Rightarrow> jsstring" where
  "digits n =
     (if n < 10 then [of_nat (48 + n)]
      else digits (n div 10) @ [of_nat (48 + n mod 10)])"

section \<open>Values produced by JSON.parse\<close>

text \<open>
  The source never looks at the value of a number, so the number type is a parameter.
  An object is the list of its own properties. Reading a property that the object does
  not have gives \<open>undefined\<close>, which is \<open>None\<close> here.
\<close>

datatype 'n json =
    JNull
  | JBool bool
  | JNum 'n
  | JStr jsstring
  | JArr "'n json list"
  | JObj "(jsstring \<times> 'n json) list"

datatype jstype = TUndefined | TObject | TBoolean | TNumber | TString

fun typeof :: "'n json option \<Rightarrow> jstype" where
  "typeof None = TUndefined"
| "typeof (Some JNull) = TObject"
| "typeof (Some (JBool b)) = TBoolean"
| "typeof (Some (JNum n)) = TNumber"
| "typeof (Some (JStr s)) = TString"
| "typeof (Some (JArr xs)) = TObject"
| "typeof (Some (JObj kvs)) = TObject"

fun isNull :: "'n json \<Rightarrow> bool" where
  "isNull JNull = True"
| "isNull _ = False"

fun isArray :: "'n json \<Rightarrow> bool" where
  "isArray (JArr xs) = True"
| "isArray _ = False"

fun elements :: "'n json \<Rightarrow> 'n json list" where
  "elements (JArr xs) = xs"
| "elements _ = []"

fun isUndefined :: "'n json option \<Rightarrow> bool" where
  "isUndefined None = True"
| "isUndefined (Some v) = False"

text \<open>\<open>item.key\<close>, read only once \<open>item\<close> is known to be a plain object.\<close>

fun property :: "'n json \<Rightarrow> jsstring \<Rightarrow> 'n json option" where
  "property (JObj kvs) k = map_of kvs k"
| "property _ k = None"

text \<open>
  The casts \<open>as string\<close> of the source: applied only to values whose \<open>typeof\<close> was
  checked to be \<open>'string'\<close> before.
\<close>

fun asString :: "'n json option \<Rightarrow> jsstring" where
  "asString (Some (JStr s)) = s"
| "asString _ = []"

text \<open>
  The guard \<open>!item.name || typeof item.name !== 'string'\<close>. For a string the second
  disjunct is false and the first holds exactly for the empty string; for every other
  value (undefined, null, a boolean, a number, an array, an object) the second
  disjunct holds.
\<close>

fun nameRejected :: "'n json option \<Rightarrow> bool" where
  "nameRejected (Some (JStr s)) = (s = [])"
| "nameRejected _ = True"

text \<open>
  \<open>(item.visibleToCustomers as boolean) ?? true\<close>, evaluated after the guard that
  leaves only \<open>undefined\<close> or a boolean.
\<close>

fun visibleOrTrue :: "'n json option \<Rightarrow> bool" where
  "visibleOrTrue (Some (JBool b)) = b"
| "visibleOrTrue _ = True"

section \<open>Resources, errors and the file system\<close>

record Resource =
  name :: jsstring
  content :: jsstring
  visibleToCustomers :: bool

datatype error = Error (message: jsstring)

text \<open>
  The world holds what \<open>fs.readFile(path, 'utf8')\<close> gives for each path (the text, or
  the description of the failure) and the paths read so far, in order.
\<close>

record world =
  files :: "jsstring \<Rightarrow> jsstring + jsstring"
  reads :: "jsstring list"

definition readFile :: "jsstring \<Rightarrow> world \<Rightarrow> (jsstring + jsstring) \<times> world" where
  "readFile p w = (files w p, w\<lparr>reads := reads w @ [p]\<rparr>)"

section \<open>parseAndResolveResources\<close>

definition hasContent :: "'n json \<Rightarrow> bool" where
  "hasContent item =
     (typeof (property item (lit ''content'')) = TString
      \<and> trim (asString (property item (lit ''content''))) \<noteq> [])"

definition hasPath :: "'n json \<Rightarrow> bool" where
  "hasPath item =
     (typeof (property item (lit ''path'')) = TString
      \<and> trim (asString (property item (lit ''path''))) \<noteq> [])"

text \<open>The prefixes of the messages: \<open>Resource [${i}]\<close> and \<open>Resource [${i}] "${item.name}"\<close>.\<close>

definition resourceAt :: "nat \<Rightarrow> jsstring" where
  "resourceAt i = lit ''Resource ['' @ digits i @ lit '']''"

definition resourceNamed :: "nat \<Rightarrow> 'n json \<Rightarrow> jsstring" where
  "resourceNamed i item =
     resourceAt i @ lit '' \"'' @ asString (property item (lit ''name'')) @ lit ''\"''"

text \<open>The body of the loop, for the element \<open>item\<close> at index \<open>i\<close>.\<close>

definition resolveItem :: "nat \<Rightarrow> 'n json \<Rightarrow> world \<Rightarrow> (error + Resource) \<times> world" where
  "resolveItem i item w =
     (if typeof (Some item) \<noteq> TObject \<or> isNull item \<or> isArray item then
        (Inl (Error (resourceAt i @ lit '': must be a JSON object'')), w)
      else if nameRejected (property item (lit ''name'')) then
        (Inl (Error (resourceAt i @ lit '': \"name\" is required and must be a string'')), w)
      else if \<not> isUndefined (property item (lit ''content''))
              \<and> typeof (property item (lit ''content'')) \<noteq> TString then
        (Inl (Error (resourceNamed i item
           @ lit '': \"content\" must be a string when provided'')), w)
      else if \<not> isUndefined (property item (lit ''path''))
              \<and> typeof (property item (lit ''path'')) \<noteq> TString then
        (Inl (Error (resourceNamed i item
           @ lit '': \"path\" must be a string when provided'')), w)
      else if \<not> isUndefined (property item (lit ''visibleToCustomers''))
              \<and> typeof (property item (lit ''visibleToCustomers'')) \<noteq> TBoolean then
        (Inl (Error (resourceNamed i item
           @ lit '': \"visibleToCustomers\" must be a boolean when provided'')), w)
      else if hasContent item \<and> hasPath item then
        (Inl (Error (resourceNamed i item
           @ lit '': specify either \"content\" or \"path\", not both'')), w)
      else if \<not> hasContent item \<and> \<not> hasPath item then
        (Inl (Error (resourceNamed i item
           @ lit '': either \"content\" or \"path\" is required'')), w)
      else if hasPath item then
        (case readFile (asString (property item (lit ''path''))) w of
           (Inl cause, w') \<Rightarrow>
             (Inl (Error (resourceNamed i item @ lit '': failed to read file \"''
                @ asString (property item (lit ''path'')) @ lit ''\": '' @ cause)), w')
         | (Inr text, w') \<Rightarrow>
             (Inr \<lparr>name = asString (property item (lit ''name'')),
                   content = text,
                   visibleToCustomers =
                     visibleOrTrue (property item (lit ''visibleToCustomers''))\<rparr>, w'))
      else
        (Inr \<lparr>name = asString (property item (lit ''name'')),
              content = asString (property item (lit ''content'')),
              visibleToCustomers =
                visibleOrTrue (property item (lit ''visibleToCustomers''))\<rparr>, w))"

text \<open>
  The loop \<open>for (let i = 0; i < parsed.length; i++)\<close>: the index, the elements still to
  process, the resources pushed so far.
\<close>

fun resolveLoop ::
  "nat \<Rightarrow> 'n json list \<Rightarrow> Resource list \<Rightarrow> world \<Rightarrow> (error + Resource list) \<times> world" where
  "resolveLoop i [] resources w = (Inr resources, w)"
| "resolveLoop i (item # rest) resources w =
     (case resolveItem i item w of
        (Inl e, w') \<Rightarrow> (Inl e, w')
      | (Inr r, w') \<Rightarrow> resolveLoop (Suc i) rest (resources @ [r]) w')"

text \<open>
  \<open>JSON.parse\<close> belongs to the runtime and is a parameter: \<open>parse input\<close> is the parsed
  value, or \<open>None\<close> where \<open>JSON.parse\<close> throws. The result is the thrown \<open>Error\<close>, or
  the returned value with \<open>None\<close> for \<open>undefined\<close>.
\<close>

definition parseAndResolveResources ::
  "(jsstring \<Rightarrow> 'n json option) \<Rightarrow> jsstring \<Rightarrow> world
     \<Rightarrow> (error + Resource list option) \<times> world" where
  "parseAndResolveResources parse input w =
     (if input = [] then (Inr None, w)
      else
        (case parse input of
           None \<Rightarrow> (Inl (Error (lit ''Input \"resources\" is not valid JSON'')), w)
         | Some parsed \<Rightarrow>
             if \<not> isArray parsed then
               (Inl (Error (lit ''Input \"resources\" must be a JSON array'')), w)
             else
               (case resolveLoop 0 (elements parsed) [] w of
                  (Inl e, w') \<Rightarrow> (Inl e, w')
                | (Inr resources, w') \<Rightarrow>
                    (Inr (if length resources > 0 then Some resources else None), w'))))"

section \<open>Vocabulary of the properties\<close>

text \<open>
  An element passes the shape checks when none of the guards on its kind, its name and
  the types of its optional fields throws.
\<close>

definition wellFormed :: "'n json \<Rightarrow> bool" where
  "wellFormed item =
     (typeof (Some item) = TObject \<and> \<not> isNull item \<and> \<not> isArray item
      \<and> \<not> nameRejected (property item (lit ''name''))
      \<and> (isUndefined (property item (lit ''content''))
           \<or> typeof (property item (lit ''content'')) = TString)
      \<and> (isUndefined (property item (lit ''path''))
           \<or> typeof (property item (lit ''path'')) = TString)
      \<and> (isUndefined (property item (lit ''visibleToCustomers''))
           \<or> typeof (property item (lit ''visibleToCustomers'')) = TBoolean))"

text \<open>
  A valid resource spec passes the shape checks and has exactly one of a non-blank
  content and a non-blank path. Validity does not depend on the file system.
\<close>

definition validSpec :: "'n json \<Rightarrow> bool" where
  "validSpec item = (wellFormed item \<and> (hasContent item \<noteq> hasPath item))"

text \<open>An element is readable when it names no path or the file at its path can be read.\<close>

definition readable :: "(jsstring \<Rightarrow> jsstring + jsstring) \<Rightarrow> 'n json \<Rightarrow> bool" where
  "readable fs item =
     (if hasPath item then
        (case fs (asString (property item (lit ''path''))) of
           Inl cause \<Rightarrow> False
         | Inr text \<Rightarrow> True)
      else True)"

text \<open>
  The resource that a valid, readable element stands for: its name, its literal content
  or the text of the file at its path, and its visibility, true when not given.
\<close>

definition resourceOf :: "(jsstring \<Rightarrow> jsstring + jsstring) \<Rightarrow> 'n json \<Rightarrow> Resource" where
  "resourceOf fs item =
     \<lparr>name = asString (property item (lit ''name'')),
      content =
        (if hasPath item then
           (case fs (asString (property item (lit ''path''))) of
              Inl cause \<Rightarrow> []
            | Inr text \<Rightarrow> text)
         else asString (property item (lit ''content''))),
      visibleToCustomers = visibleOrTrue (property item (lit ''visibleToCustomers''))\<rparr>"

text \<open>The paths read for a valid element: its path, if it has one.\<close>

definition itemReads :: "'n json \<Rightarrow> jsstring list" where
  "itemReads item =
     (if hasPath item then [asString (property item (lit ''path''))] else [])"

text \<open>
  Two elements agree on the recognized fields when they are the same value, or are both
  objects that give the same \<open>name\<close>, \<open>content\<close>, \<open>path\<close> and \<open>visibleToCustomers\<close>.
\<close>

definition recognized :: "jsstring list" where
  "recognized = [lit ''name'', lit ''content'', lit ''path'', lit ''visibleToCustomers'']"

fun sameRecognized :: "'n json \<Rightarrow> 'n json \<Rightarrow> bool" where
  "sameRecognized (JObj kvs) (JObj kvs') =
     list_all (\<lambda>k. map_of kvs k = map_of kvs' k) recognized"
| "sameRecognized a b = (a = b)"

text \<open>A message references index \<open>k\<close> when it starts with \<open>Resource [k]\<close>.\<close>

definition referencesIndex :: "error \<Rightarrow> nat \<Rightarrow> bool" where
  "referencesIndex e k = prefix (resourceAt k) (message e)"

section \<open>Example inputs\<close>

text \<open>
  A file system with one file, \<open>f.txt\<close>; some JSON values, each with the text that
  denotes it; and example parsers, each given by a table from JSON texts to the values
  they denote. Such a parser rejects every text that is not in its table, as
  \<open>JSON.parse\<close> rejects the empty text and the blank text, which denote no value.
\<close>

definition exampleFiles :: "jsstring \<Rightarrow> jsstring + jsstring" where
  "exampleFiles p =
     (if p = lit ''f.txt'' then Inr (lit ''from file'')
      else Inl (lit ''ENOENT: no such file or directory''))"

definition exampleWorld :: world where
  "exampleWorld = \<lparr>files = exampleFiles, reads = []\<rparr>"

definition inlineA :: "nat json" where
  "inlineA = JObj [(lit ''name'', JStr (lit ''a'')), (lit ''content'', JStr (lit ''  hello ''))]"

definition inlineA_text :: jsstring where
  "inlineA_text = lit ''{\"name\":\"a\",\"content\":\"  hello \"}''"

definition fromFileB :: "nat json" where
  "fromFileB = JObj [(lit ''name'', JStr (lit ''b'')), (lit ''path'', JStr (lit ''f.txt'')),
                     (lit ''visibleToCustomers'', JBool False)]"

definition fromFileB_text :: jsstring where
  "fromFileB_text = lit ''{\"name\":\"b\",\"path\":\"f.txt\",\"visibleToCustomers\":false}''"

definition missingFileC :: "nat json" where
  "missingFileC = JObj [(lit ''name'', JStr (lit ''c'')), (lit ''path'', JStr (lit ''missing.txt''))]"

definition missingFileC_text :: jsstring where
  "missingFileC_text = lit ''{\"name\":\"c\",\"path\":\"missing.txt\"}''"

definition bothD :: "nat json" where
  "bothD = JObj [(lit ''name'', JStr (lit ''d'')), (lit ''content'', JStr (lit ''x'')),
                 (lit ''path'', JStr (lit ''f.txt''))]"

definition bothD_text :: jsstring where
  "bothD_text = lit ''{\"name\":\"d\",\"content\":\"x\",\"path\":\"f.txt\"}''"

definition neitherE :: "nat json" where
  "neitherE = JObj [(lit ''name'', JStr (lit ''e'')), (lit ''content'', JStr (lit ''  ''))]"

definition neitherE_text :: jsstring where
  "neitherE_text = lit ''{\"name\":\"e\",\"content\":\"  \"}''"

definition numberContentF :: "nat json" where
  "numberContentF = JObj [(lit ''name'', JStr (lit ''f'')), (lit ''content'', JNum 5)]"

definition numberContentF_text :: jsstring where
  "numberContentF_text = lit ''{\"name\":\"f\",\"content\":5}''"

definition blankNameG :: "nat json" where
  "blankNameG = JObj [(lit ''name'', JStr (lit '' '')), (lit ''content'', JStr (lit ''x''))]"

definition blankNameG_text :: jsstring where
  "blankNameG_text = lit ''{\"name\":\" \",\"content\":\"x\"}''"

definition extraKeysA :: "nat json" where
  "extraKeysA = JObj [(lit ''note'', JNum 1), (lit ''name'', JStr (lit ''a'')),
                      (lit ''content'', JStr (lit ''  hello '')), (lit ''kind'', JNull)]"

definition extraKeysA_text :: jsstring where
  "extraKeysA_text = lit ''{\"note\":1,\"name\":\"a\",\"content\":\"  hello \",\"kind\":null}''"

definition seven :: "nat json" where
  "seven = JNum 7"

definition seven_text :: jsstring where
  "seven_text = lit ''7''"

fun commaSeparated :: "jsstring list \<Rightarrow> jsstring" where
  "commaSeparated [] = []"
| "commaSeparated [t] = t"
| "commaSeparated (t # ts) = t @ lit '','' @ commaSeparated ts"

definition arrayText :: "jsstring list \<Rightarrow> jsstring" where
  "arrayText ts = lit ''['' @ commaSeparated ts @ lit '']''"

definition parseFrom :: "(jsstring \<times> nat json) list \<Rightarrow> jsstring \<Rightarrow> nat json option" where
  "parseFrom table input = map_of table input"

section \<open>The body of the loop\<close>

lemma resolveItem_snd:
  "snd (resolveItem i item w) =
     w\<lparr>reads := reads w @ (if validSpec item then itemReads item else [])\<rparr>"
  by (auto simp: resolveItem_def validSpec_def wellFormed_def itemReads_def readFile_def
           split: sum.splits)

lemma resolveItem_fst_cong:
  "files w = files w' \<Longrightarrow> fst (resolveItem i item w) = fst (resolveItem i item w')"
  by (auto simp: resolveItem_def readFile_def split: sum.splits)

lemma resolveItem_valid:
  "validSpec item \<Longrightarrow> readable (files w) item \<Longrightarrow>
     fst (resolveItem i item w) = Inr (resourceOf (files w) item)"
  by (auto simp: resolveItem_def validSpec_def wellFormed_def readable_def resourceOf_def
                 readFile_def split: sum.splits if_splits)

lemma resolveItem_invalid:
  "\<not> validSpec item \<Longrightarrow>
     \<exists>e. fst (resolveItem i item w) = Inl e \<and> referencesIndex e i"
  by (auto simp: resolveItem_def validSpec_def wellFormed_def referencesIndex_def
                 resourceNamed_def)

lemma resolveItem_unreadable:
  "validSpec item \<Longrightarrow> hasPath item \<Longrightarrow>
   files w (asString (property item (lit ''path''))) = Inl cause \<Longrightarrow>
     fst (resolveItem i item w) =
       Inl (Error (resourceNamed i item @ lit '': failed to read file \"''
              @ asString (property item (lit ''path'')) @ lit ''\": '' @ cause))"
  by (auto simp: resolveItem_def validSpec_def wellFormed_def readFile_def)

lemma resolveItem_Inr_valid:
  assumes "fst (resolveItem i item w) = Inr r"
  shows "validSpec item \<and> readable (files w) item"
proof -
  have v: "validSpec item"
    using assms resolveItem_invalid [of item i w] by auto
  have "readable (files w) item"
  proof (cases "hasPath item")
    case False
    then show ?thesis by (simp add: readable_def)
  next
    case True
    show ?thesis
    proof (cases \<open>files w (asString (property item (lit ''path'')))\<close>)
      case (Inl cause)
      with v True assms show ?thesis
        using resolveItem_unreadable [of item w cause i] by simp
    next
      case (Inr body)
      with True show ?thesis by (simp add: readable_def)
    qed
  qed
  with v show ?thesis by simp
qed

section \<open>The loop\<close>

lemma resolveLoop_Cons:
  "resolveLoop i (item # rest) acc w =
     (case fst (resolveItem i item w) of
        Inl e \<Rightarrow> (Inl e, snd (resolveItem i item w))
      | Inr r \<Rightarrow> resolveLoop (Suc i) rest (acc @ [r]) (snd (resolveItem i item w)))"
  by (simp split: prod.splits sum.splits)

lemma resolveLoop_files: "files (snd (resolveLoop i xs acc w)) = files w"
proof (induction xs arbitrary: i acc w)
  case Nil
  show ?case by simp
next
  case (Cons item rest)
  show ?case
    by (simp only: resolveLoop_Cons) (simp add: Cons.IH resolveItem_snd split: sum.splits)
qed

lemma resolveLoop_fst_cong:
  "files w = files w' \<Longrightarrow> fst (resolveLoop i xs acc w) = fst (resolveLoop i xs acc w')"
proof (induction xs arbitrary: i acc w w')
  case Nil
  show ?case by simp
next
  case (Cons item rest)
  have same: "fst (resolveItem i item w) = fst (resolveItem i item w')"
    using Cons.prems by (rule resolveItem_fst_cong)
  have next_files:
    "files (snd (resolveItem i item w)) = files (snd (resolveItem i item w'))"
    using Cons.prems by (simp add: resolveItem_snd)
  show ?case
  proof (cases "fst (resolveItem i item w')")
    case (Inl e)
    with same show ?thesis by (simp only: resolveLoop_Cons) simp
  next
    case (Inr r)
    with same Cons.IH [OF next_files] show ?thesis
      by (simp only: resolveLoop_Cons) simp
  qed
qed

lemma resolveLoop_valid:
  "\<forall>x \<in> set xs. validSpec x \<and> readable (files w) x \<Longrightarrow>
     resolveLoop i xs acc w =
       (Inr (acc @ map (resourceOf (files w)) xs),
        w\<lparr>reads := reads w @ concat (map itemReads xs)\<rparr>)"
proof (induction xs arbitrary: i acc w)
  case Nil
  show ?case by simp
next
  case (Cons item rest)
  let ?w' = "snd (resolveItem i item w)"
  have ok: "fst (resolveItem i item w) = Inr (resourceOf (files w) item)"
    using Cons.prems by (simp add: resolveItem_valid)
  have w': "?w' = w\<lparr>reads := reads w @ itemReads item\<rparr>"
    using Cons.prems by (simp add: resolveItem_snd)
  have "\<forall>x \<in> set rest. validSpec x \<and> readable (files ?w') x"
    using Cons.prems by (simp add: w')
  from Cons.IH [OF this] ok show ?case
    by (simp only: resolveLoop_Cons) (simp add: w')
qed

lemma resolveLoop_append:
  "resolveLoop i (xs @ ys) acc w =
     (case resolveLoop i xs acc w of
        (Inl e, w') \<Rightarrow> (Inl e, w')
      | (Inr rs, w') \<Rightarrow> resolveLoop (i + length xs) ys rs w')"
proof (induction xs arbitrary: i acc w)
  case Nil
  show ?case by simp
next
  case (Cons item rest)
  show ?case
    by (cases "fst (resolveItem i item w)")
       (simp_all only: append_Cons resolveLoop_Cons Cons.IH, simp_all split: prod.splits sum.splits)
qed

lemma resolveLoop_Inr_valid:
  "fst (resolveLoop i xs acc w) = Inr rs \<Longrightarrow>
     \<forall>x \<in> set xs. validSpec x \<and> readable (files w) x"
proof (induction xs arbitrary: i acc w)
  case Nil
  show ?case by simp
next
  case (Cons item rest)
  show ?case
  proof (cases "fst (resolveItem i item w)")
    case (Inl e)
    with Cons.prems show ?thesis by (simp only: resolveLoop_Cons) simp
  next
    case (Inr r)
    then have here: "validSpec item \<and> readable (files w) item"
      by (rule resolveItem_Inr_valid)
    from Inr Cons.prems
    have "fst (resolveLoop (Suc i) rest (acc @ [r]) (snd (resolveItem i item w))) = Inr rs"
      by (simp only: resolveLoop_Cons) simp
    from Cons.IH [OF this] here show ?thesis
      by (simp add: resolveItem_snd)
  qed
qed

lemma resolveLoop_stops:
  assumes "\<forall>x \<in> set pre. validSpec x \<and> readable (files w) x"
  shows "resolveLoop i (pre @ item # rest) acc w =
     (case fst (resolveItem (i + length pre) item
                  (w\<lparr>reads := reads w @ concat (map itemReads pre)\<rparr>)) of
        Inl e \<Rightarrow> (Inl e, snd (resolveItem (i + length pre) item
                  (w\<lparr>reads := reads w @ concat (map itemReads pre)\<rparr>)))
      | Inr r \<Rightarrow> resolveLoop (Suc (i + length pre)) rest
                  (acc @ map (resourceOf (files w)) pre @ [r])
                  (snd (resolveItem (i + length pre) item
                  (w\<lparr>reads := reads w @ concat (map itemReads pre)\<rparr>))))"
  by (simp only: resolveLoop_append resolveLoop_valid [OF assms] prod.case sum.case
        resolveLoop_Cons append_assoc)

section \<open>The whole function\<close>

lemma resolve_array:
  "input \<noteq> [] \<Longrightarrow> parse input = Some (JArr xs) \<Longrightarrow>
     parseAndResolveResources parse input w =
       (case fst (resolveLoop 0 xs [] w) of
          Inl e \<Rightarrow> (Inl e, snd (resolveLoop 0 xs [] w))
        | Inr rs \<Rightarrow> (Inr (if rs = [] then None else Some rs), snd (resolveLoop 0 xs [] w)))"
  by (simp add: parseAndResolveResources_def split: prod.splits sum.splits)

lemma parsed_nonempty: "parse [] = None \<Longrightarrow> parse input = Some v \<Longrightarrow> input \<noteq> []"
  by auto

section \<open>Reading the fields of an element\<close>

lemma typeof_TString: "typeof v = TString \<longleftrightarrow> (\<exists>s. v = Some (JStr s))"
  by (cases v rule: typeof.cases) simp_all

lemma typeof_TBoolean: "typeof v = TBoolean \<longleftrightarrow> (\<exists>b. v = Some (JBool b))"
  by (cases v rule: typeof.cases) simp_all

lemma nameRejected_iff: "\<not> nameRejected v \<longleftrightarrow> (\<exists>s. v = Some (JStr s) \<and> s \<noteq> [])"
  by (cases v rule: nameRejected.cases) simp_all

lemma isUndefined_iff: "isUndefined v \<longleftrightarrow> v = None"
  by (cases v) simp_all

lemma hasContent_iff:
  "hasContent item \<longleftrightarrow> (\<exists>c. property item (lit ''content'') = Some (JStr c) \<and> trim c \<noteq> [])"
  by (auto simp: hasContent_def typeof_TString)

lemma hasPath_iff:
  "hasPath item \<longleftrightarrow> (\<exists>p. property item (lit ''path'') = Some (JStr p) \<and> trim p \<noteq> [])"
  by (auto simp: hasPath_def typeof_TString)

lemma validSpec_name:
  "validSpec item \<Longrightarrow> \<exists>nm. property item (lit ''name'') = Some (JStr nm) \<and> nm \<noteq> []"
  by (simp add: validSpec_def wellFormed_def nameRejected_iff)

lemma wellFormed_name:
  "wellFormed item \<Longrightarrow> \<exists>nm. property item (lit ''name'') = Some (JStr nm) \<and> nm \<noteq> []"
  by (simp add: wellFormed_def nameRejected_iff)

lemma resourceOf_name:
  "validSpec item \<Longrightarrow>
     property item (lit ''name'') = Some (JStr (name (resourceOf fs item)))"
  using validSpec_name [of item] by (auto simp: resourceOf_def)

lemma resourceOf_content:
  "validSpec item \<Longrightarrow> hasContent item \<Longrightarrow>
     property item (lit ''content'') = Some (JStr (content (resourceOf fs item)))"
  by (auto simp: resourceOf_def validSpec_def hasContent_iff)

lemma resourceOf_path:
  "readable fs item \<Longrightarrow> hasPath item \<Longrightarrow>
     \<exists>p. property item (lit ''path'') = Some (JStr p)
         \<and> fs p = Inr (content (resourceOf fs item))"
  by (auto simp: resourceOf_def readable_def hasPath_iff split: sum.splits)

lemma resourceOf_visible_default:
  "isUndefined (property item (lit ''visibleToCustomers'')) \<Longrightarrow>
     visibleToCustomers (resourceOf fs item)"
  by (simp add: resourceOf_def isUndefined_iff)

lemma resourceOf_visible_given:
  "property item (lit ''visibleToCustomers'') = Some (JBool b) \<Longrightarrow>
     visibleToCustomers (resourceOf fs item) = b"
  by (simp add: resourceOf_def)

section \<open>Arrays of valid, readable elements\<close>

lemma resolve_valid:
  assumes "parse [] = None" and "parse input = Some (JArr xs)"
    and "\<forall>x \<in> set xs. validSpec x \<and> readable (files w) x"
  shows "parseAndResolveResources parse input w =
           (Inr (if xs = [] then None else Some (map (resourceOf (files w)) xs)),
            w\<lparr>reads := reads w @ concat (map itemReads xs)\<rparr>)"
proof -
  have "input \<noteq> []" using assms(1,2) by (rule parsed_nonempty)
  then show ?thesis
    using assms(2) resolveLoop_valid [OF assms(3), of 0 "[]"]
    by (simp add: resolve_array)
qed

section \<open>Arrays with a failing element\<close>

lemma resourceNamed_text:
  "property item (lit ''name'') = Some (JStr nm) \<Longrightarrow>
     resourceNamed i item = lit ''Resource ['' @ digits i @ lit ''] \"'' @ nm @ lit ''\"''"
  by (simp add: resourceNamed_def resourceAt_def lit_def)

lemma resolveItem_both:
  "wellFormed item \<Longrightarrow> hasContent item \<Longrightarrow> hasPath item \<Longrightarrow>
     fst (resolveItem i item w) =
       Inl (Error (resourceNamed i item
              @ lit '': specify either \"content\" or \"path\", not both''))"
  by (auto simp: resolveItem_def wellFormed_def)

lemma resolveItem_neither:
  "wellFormed item \<Longrightarrow> \<not> hasContent item \<Longrightarrow> \<not> hasPath item \<Longrightarrow>
     fst (resolveItem i item w) =
       Inl (Error (resourceNamed i item
              @ lit '': either \"content\" or \"path\" is required''))"
  by (auto simp: resolveItem_def wellFormed_def)

lemma resolve_stops:
  assumes "parse [] = None" and "parse input = Some (JArr (pre @ item # rest))"
    and "\<forall>x \<in> set pre. validSpec x \<and> readable (files w) x"
    and "fst (resolveItem (length pre) item w) = Inl e"
  shows "parseAndResolveResources parse input w =
           (Inl e, w\<lparr>reads := reads w @ concat (map itemReads pre)
                              @ (if validSpec item then itemReads item else [])\<rparr>)"
proof -
  let ?w1 = "w\<lparr>reads := reads w @ concat (map itemReads pre)\<rparr>"
  have nonempty: "input \<noteq> []" using assms(1,2) by (rule parsed_nonempty)
  have "fst (resolveItem (length pre) item ?w1) = fst (resolveItem (length pre) item w)"
    by (rule resolveItem_fst_cong) simp
  with assms(4) have fails: "fst (resolveItem (length pre) item ?w1) = Inl e" by simp
  have "resolveLoop 0 (pre @ item # rest) [] w =
          (Inl e, snd (resolveItem (length pre) item ?w1))"
    using fails by (simp add: resolveLoop_stops [OF assms(3)])
  then show ?thesis
    using nonempty assms(2) by (simp add: resolve_array resolveItem_snd)
qed

section \<open>Successful results\<close>

lemma resolveLoop_Inr_result:
  assumes "fst (resolveLoop i xs acc w) = Inr rs"
  shows "rs = acc @ map (resourceOf (files w)) xs"
  using assms resolveLoop_valid [OF resolveLoop_Inr_valid [OF assms], of i acc] by simp

lemma resolve_Some_result:
  assumes "parse input = Some (JArr xs)"
    and "fst (parseAndResolveResources parse input w) = Inr (Some rs)"
  shows "rs = map (resourceOf (files w)) xs
         \<and> (\<forall>x \<in> set xs. validSpec x \<and> readable (files w) x)"
proof -
  have nonempty: "input \<noteq> []"
    using assms(2) by (auto simp: parseAndResolveResources_def)
  show ?thesis
  proof (cases "fst (resolveLoop 0 xs [] w)")
    case (Inl e)
    with nonempty assms show ?thesis by (simp add: resolve_array)
  next
    case (Inr out)
    from resolveLoop_Inr_result [OF Inr] resolveLoop_Inr_valid [OF Inr]
      nonempty assms Inr
    show ?thesis by (simp add: resolve_array split: if_splits)
  qed
qed

section \<open>The world before and after a call\<close>

lemma resolve_fst:
  "fst (parseAndResolveResources parse input w) =
     (if input = [] then Inr None
      else
        (case parse input of
           None \<Rightarrow> Inl (Error (lit ''Input \"resources\" is not valid JSON''))
         | Some parsed \<Rightarrow>
             if \<not> isArray parsed then
               Inl (Error (lit ''Input \"resources\" must be a JSON array''))
             else
               (case fst (resolveLoop 0 (elements parsed) [] w) of
                  Inl e \<Rightarrow> Inl e
                | Inr resources \<Rightarrow>
                    Inr (if length resources > 0 then Some resources else None))))"
  by (simp add: parseAndResolveResources_def split: option.splits prod.splits sum.splits)

lemma resolve_snd:
  "snd (parseAndResolveResources parse input w) =
     (if input = [] then w
      else
        (case parse input of
           None \<Rightarrow> w
         | Some parsed \<Rightarrow>
             if \<not> isArray parsed then w
             else snd (resolveLoop 0 (elements parsed) [] w)))"
  by (simp add: parseAndResolveResources_def split: option.splits prod.splits sum.splits)

lemma resolve_fst_cong:
  assumes "files w' = files w"
  shows "fst (parseAndResolveResources parse input w')
           = fst (parseAndResolveResources parse input w)"
  by (simp only: resolve_fst resolveLoop_fst_cong [OF assms])

lemma resolve_files: "files (snd (parseAndResolveResources parse input w)) = files w"
  by (simp add: resolve_snd resolveLoop_files split: option.splits)

section \<open>Elements that agree on the recognized fields\<close>

lemma resolveItem_sameRecognized:
  assumes "sameRecognized a b"
  shows "resolveItem i a w = resolveItem i b w"
proof (cases "\<exists>kvs kvs'. a = JObj kvs \<and> b = JObj kvs'")
  case True
  then obtain kvs kvs' where a: "a = JObj kvs" and b: "b = JObj kvs'" by blast
  from assms have same: "property a (lit ''name'') = property b (lit ''name'')"
    "property a (lit ''content'') = property b (lit ''content'')"
    "property a (lit ''path'') = property b (lit ''path'')"
    "property a (lit ''visibleToCustomers'') = property b (lit ''visibleToCustomers'')"
    by (simp_all add: a b recognized_def)
  have kind: "typeof (Some a) = typeof (Some b)" "isNull a = isNull b"
    "isArray a = isArray b"
    by (simp_all add: a b)
  show ?thesis
    unfolding resolveItem_def hasContent_def hasPath_def resourceNamed_def same kind ..
next
  case False
  with assms have "a = b" by (cases a; cases b) simp_all
  then show ?thesis by simp
qed

lemma resolveLoop_sameRecognized:
  "list_all2 sameRecognized xs ys \<Longrightarrow> resolveLoop i xs acc w = resolveLoop i ys acc w"
proof (induction xs ys arbitrary: i acc w rule: list_all2_induct)
  case Nil
  show ?case by simp
next
  case (Cons x xs y ys)
  from Cons.hyps(1) have "resolveItem i x w = resolveItem i y w"
    by (rule resolveItem_sameRecognized)
  with Cons.IH show ?case by (simp only: resolveLoop_Cons)
qed

section \<open>The claims\<close>

text \<open>
  Claim C1, for a non-empty array whose files can be read. When the input parses as a
  non-empty array whose elements are all valid resource specs and every file named by
  a path can be read, the result is a sequence of the length of the array, and its
  element \<open>i\<close> comes from element \<open>i\<close> of the array: it has the name of that element,
  as given; its content is the content of the element, as given, or the text of the
  file at its path; and it is visible to customers as the element says, and visible
  when the element does not say.
\<close>

theorem resolve_valid_array:
  assumes "parse [] = None" and "parse input = Some (JArr xs)" and "xs \<noteq> []"
    and "\<forall>x \<in> set xs. validSpec x \<and> readable (files w) x"
  shows "\<exists>rs. fst (parseAndResolveResources parse input w) = Inr (Some rs)
           \<and> length rs = length xs
           \<and> (\<forall>i < length xs.
                 property (xs ! i) (lit ''name'') = Some (JStr (name (rs ! i)))
               \<and> (hasContent (xs ! i) \<longrightarrow>
                    property (xs ! i) (lit ''content'') = Some (JStr (content (rs ! i))))
               \<and> (hasPath (xs ! i) \<longrightarrow>
                    (\<exists>p. property (xs ! i) (lit ''path'') = Some (JStr p)
                        \<and> files w p = Inr (content (rs ! i))))
               \<and> (isUndefined (property (xs ! i) (lit ''visibleToCustomers'')) \<longrightarrow>
                    visibleToCustomers (rs ! i))
               \<and> (\<forall>b. property (xs ! i) (lit ''visibleToCustomers'') = Some (JBool b) \<longrightarrow>
                    visibleToCustomers (rs ! i) = b))"
proof -
  let ?rs = "map (resourceOf (files w)) xs"
  have res: "fst (parseAndResolveResources parse input w) = Inr (Some ?rs)"
    using assms by (simp add: resolve_valid)
  have each: "property (xs ! i) (lit ''name'') = Some (JStr (name (?rs ! i)))
      \<and> (hasContent (xs ! i) \<longrightarrow>
           property (xs ! i) (lit ''content'') = Some (JStr (content (?rs ! i))))
      \<and> (hasPath (xs ! i) \<longrightarrow>
           (\<exists>p. property (xs ! i) (lit ''path'') = Some (JStr p)
               \<and> files w p = Inr (content (?rs ! i))))
      \<and> (isUndefined (property (xs ! i) (lit ''visibleToCustomers'')) \<longrightarrow>
           visibleToCustomers (?rs ! i))
      \<and> (\<forall>b. property (xs ! i) (lit ''visibleToCustomers'') = Some (JBool b) \<longrightarrow>
           visibleToCustomers (?rs ! i) = b)" if "i < length xs" for i
  proof -
    from that assms(4) have v: "validSpec (xs ! i)" and r: "readable (files w) (xs ! i)"
      by simp_all
    from that have at: "?rs ! i = resourceOf (files w) (xs ! i)" by simp
    show ?thesis
      unfolding at
      using resourceOf_name [OF v] resourceOf_content [OF v] resourceOf_path [OF r]
        resourceOf_visible_default resourceOf_visible_given
      by blast
  qed
  from res each show ?thesis by (intro exI [of _ ?rs]) simp
qed

text \<open>
  The array of an inline element and an element read from \<open>f.txt\<close> satisfies the
  hypotheses.
\<close>

theorem resolve_valid_array_witness:
  "parseFrom [(arrayText [inlineA_text, fromFileB_text], JArr [inlineA, fromFileB])] [] = None
   \<and> parseFrom [(arrayText [inlineA_text, fromFileB_text], JArr [inlineA, fromFileB])]
         (arrayText [inlineA_text, fromFileB_text]) = Some (JArr [inlineA, fromFileB])
   \<and> [inlineA, fromFileB] \<noteq> []
   \<and> validSpec inlineA \<and> readable (files exampleWorld) inlineA
   \<and> validSpec fromFileB \<and> readable (files exampleWorld) fromFileB
   \<and> (\<exists>rs. fst (parseAndResolveResources
                 (parseFrom [(arrayText [inlineA_text, fromFileB_text], JArr [inlineA, fromFileB])])
                 (arrayText [inlineA_text, fromFileB_text]) exampleWorld) = Inr (Some rs)
         \<and> length rs = length [inlineA, fromFileB]
         \<and> (\<forall>i < length [inlineA, fromFileB].
               property ([inlineA, fromFileB] ! i) (lit ''name'') = Some (JStr (name (rs ! i)))
             \<and> (hasContent ([inlineA, fromFileB] ! i) \<longrightarrow>
                  property ([inlineA, fromFileB] ! i) (lit ''content'')
                    = Some (JStr (content (rs ! i))))
             \<and> (hasPath ([inlineA, fromFileB] ! i) \<longrightarrow>
                  (\<exists>p. property ([inlineA, fromFileB] ! i) (lit ''path'') = Some (JStr p)
                      \<and> files exampleWorld p = Inr (content (rs ! i))))
             \<and> (isUndefined (property ([inlineA, fromFileB] ! i) (lit ''visibleToCustomers''))
                  \<longrightarrow> visibleToCustomers (rs ! i))
             \<and> (\<forall>b. property ([inlineA, fromFileB] ! i) (lit ''visibleToCustomers'')
                    = Some (JBool b) \<longrightarrow> visibleToCustomers (rs ! i) = b)))"
proof -
  have h1: "parseFrom [(arrayText [inlineA_text, fromFileB_text], JArr [inlineA, fromFileB])] []
              = None"
    by (simp add: parseFrom_def arrayText_def lit_def)
  have h2: "parseFrom [(arrayText [inlineA_text, fromFileB_text], JArr [inlineA, fromFileB])]
              (arrayText [inlineA_text, fromFileB_text]) = Some (JArr [inlineA, fromFileB])"
    by (simp add: parseFrom_def)
  have h3: "[inlineA, fromFileB] \<noteq> []" by simp
  have h4: "\<forall>x \<in> set [inlineA, fromFileB]. validSpec x \<and> readable (files exampleWorld) x"
    by code_simp
  have h5: "validSpec inlineA \<and> readable (files exampleWorld) inlineA
            \<and> validSpec fromFileB \<and> readable (files exampleWorld) fromFileB"
    using h4 by simp
  from resolve_valid_array [OF h1 h2 h3 h4] h1 h2 h3 h5 show ?thesis by blast
qed

text \<open>
  Both conditions are needed: the empty array has only valid elements and gives the
  absent result, not a sequence; and a valid element whose file is missing gives a
  failure.
\<close>

theorem resolve_valid_array_counterexample:
  "parseFrom [(arrayText [], JArr [])] (arrayText []) = Some (JArr [])
   \<and> fst (parseAndResolveResources (parseFrom [(arrayText [], JArr [])]) (arrayText [])
            exampleWorld) = Inr None
   \<and> parseFrom [(arrayText [missingFileC_text], JArr [missingFileC])]
         (arrayText [missingFileC_text]) = Some (JArr [missingFileC])
   \<and> validSpec missingFileC
   \<and> fst (parseAndResolveResources
            (parseFrom [(arrayText [missingFileC_text], JArr [missingFileC])])
            (arrayText [missingFileC_text]) exampleWorld)
       = Inl (Error (lit
           ''Resource [0] \"c\": failed to read file \"missing.txt\": ENOENT: no such file or directory''))"
  by code_simp

text \<open>
  Claim C2, for an element that the loop reaches and that passes the earlier guards.
  Let every element before it be valid and readable, and let the element pass the
  guards on its kind, its name and the types of its fields. If it has both a non-blank
  content and a non-blank path, the call fails with the message
  \<open>Resource [i] "name": specify either "content" or "path", not both\<close>; if it has
  neither, the call fails with the message
  \<open>Resource [i] "name": either "content" or "path" is required\<close>; here \<open>i\<close> is the
  index of the element and \<open>name\<close> its name. The source throws values of the one
  class \<open>Error\<close>; the kinds of failure differ by their messages only.
\<close>

theorem content_path_exclusive:
  assumes "parse [] = None" and "parse input = Some (JArr (pre @ item # rest))"
    and "\<forall>x \<in> set pre. validSpec x \<and> readable (files w) x"
    and "wellFormed item"
  shows "\<exists>nm. property item (lit ''name'') = Some (JStr nm)
           \<and> (hasContent item \<and> hasPath item \<longrightarrow>
                fst (parseAndResolveResources parse input w) =
                  Inl (Error (lit ''Resource ['' @ digits (length pre) @ lit ''] \"'' @ nm
                     @ lit ''\": specify either \"content\" or \"path\", not both'')))
           \<and> (\<not> hasContent item \<and> \<not> hasPath item \<longrightarrow>
                fst (parseAndResolveResources parse input w) =
                  Inl (Error (lit ''Resource ['' @ digits (length pre) @ lit ''] \"'' @ nm
                     @ lit ''\": either \"content\" or \"path\" is required'')))"
proof -
  from assms(4) obtain nm where nm: "property item (lit ''name'') = Some (JStr nm)"
    using wellFormed_name by blast
  have both: "fst (parseAndResolveResources parse input w) =
      Inl (Error (lit ''Resource ['' @ digits (length pre) @ lit ''] \"'' @ nm
         @ lit ''\": specify either \"content\" or \"path\", not both''))"
    if "hasContent item" and "hasPath item"
    using resolve_stops [OF assms(1-3) resolveItem_both [OF assms(4) that]]
    by (simp add: resourceNamed_text [OF nm] lit_def)
  have neither: "fst (parseAndResolveResources parse input w) =
      Inl (Error (lit ''Resource ['' @ digits (length pre) @ lit ''] \"'' @ nm
         @ lit ''\": either \"content\" or \"path\" is required''))"
    if "\<not> hasContent item" and "\<not> hasPath item"
    using resolve_stops [OF assms(1-3) resolveItem_neither [OF assms(4) that]]
    by (simp add: resourceNamed_text [OF nm] lit_def)
  from nm both neither show ?thesis by blast
qed

text \<open>
  An element with both and an element with a blank content and no path, each at index
  1 after an element that is read from \<open>f.txt\<close>.
\<close>

theorem content_path_exclusive_witness:
  "parseFrom [(arrayText [fromFileB_text, bothD_text, missingFileC_text],
                 JArr [fromFileB, bothD, missingFileC]),
              (arrayText [fromFileB_text, neitherE_text, missingFileC_text],
                 JArr [fromFileB, neitherE, missingFileC])] [] = None
   \<and> validSpec fromFileB \<and> readable (files exampleWorld) fromFileB
   \<and> wellFormed bothD \<and> hasContent bothD \<and> hasPath bothD
   \<and> fst (parseAndResolveResources
            (parseFrom [(arrayText [fromFileB_text, bothD_text, missingFileC_text],
                           JArr [fromFileB, bothD, missingFileC]),
                        (arrayText [fromFileB_text, neitherE_text, missingFileC_text],
                           JArr [fromFileB, neitherE, missingFileC])])
            (arrayText [fromFileB_text, bothD_text, missingFileC_text]) exampleWorld)
       = Inl (Error (lit
           ''Resource [1] \"d\": specify either \"content\" or \"path\", not both''))
   \<and> wellFormed neitherE \<and> \<not> hasContent neitherE \<and> \<not> hasPath neitherE
   \<and> fst (parseAndResolveResources
            (parseFrom [(arrayText [fromFileB_text, bothD_text, missingFileC_text],
                           JArr [fromFileB, bothD, missingFileC]),
                        (arrayText [fromFileB_text, neitherE_text, missingFileC_text],
                           JArr [fromFileB, neitherE, missingFileC])])
            (arrayText [fromFileB_text, neitherE_text, missingFileC_text]) exampleWorld)
       = Inl (Error (lit ''Resource [1] \"e\": either \"content\" or \"path\" is required''))"
proof -
  let ?parse = "parseFrom [(arrayText [fromFileB_text, bothD_text, missingFileC_text],
                              JArr [fromFileB, bothD, missingFileC]),
                           (arrayText [fromFileB_text, neitherE_text, missingFileC_text],
                              JArr [fromFileB, neitherE, missingFileC])]"
  have h1: "?parse [] = None"
    by (simp add: parseFrom_def arrayText_def lit_def)
  have h2: "?parse (arrayText [fromFileB_text, bothD_text, missingFileC_text])
              = Some (JArr ([fromFileB] @ bothD # [missingFileC]))"
    by (simp add: parseFrom_def)
  have h2': "?parse (arrayText [fromFileB_text, neitherE_text, missingFileC_text])
              = Some (JArr ([fromFileB] @ neitherE # [missingFileC]))"
    by code_simp
  have h3: "\<forall>x \<in> set [fromFileB]. validSpec x \<and> readable (files exampleWorld) x"
    by code_simp
  have h4: "wellFormed bothD \<and> hasContent bothD \<and> hasPath bothD" by code_simp
  have h4': "wellFormed neitherE \<and> \<not> hasContent neitherE \<and> \<not> hasPath neitherE"
    by code_simp
  have nd: "property bothD (lit ''name'') = Some (JStr (lit ''d''))" by code_simp
  have ne: "property neitherE (lit ''name'') = Some (JStr (lit ''e''))" by code_simp
  have md: "lit ''Resource ['' @ digits (length [fromFileB]) @ lit ''] \"'' @ lit ''d''
              @ lit ''\": specify either \"content\" or \"path\", not both''
            = lit ''Resource [1] \"d\": specify either \"content\" or \"path\", not both''"
    by code_simp
  have me: "lit ''Resource ['' @ digits (length [fromFileB]) @ lit ''] \"'' @ lit ''e''
              @ lit ''\": either \"content\" or \"path\" is required''
            = lit ''Resource [1] \"e\": either \"content\" or \"path\" is required''"
    by code_simp
  from content_path_exclusive [OF h1 h2 h3] h4 nd md
  have both: "fst (parseAndResolveResources ?parse
                (arrayText [fromFileB_text, bothD_text, missingFileC_text]) exampleWorld)
       = Inl (Error (lit
           ''Resource [1] \"d\": specify either \"content\" or \"path\", not both''))"
    by auto
  from content_path_exclusive [OF h1 h2' h3] h4' ne me
  have neither: "fst (parseAndResolveResources ?parse
                (arrayText [fromFileB_text, neitherE_text, missingFileC_text]) exampleWorld)
       = Inl (Error (lit ''Resource [1] \"e\": either \"content\" or \"path\" is required''))"
    by auto
  from h1 h3 h4 h4' both neither show ?thesis by simp
qed

text \<open>
  An element whose content is the number 5 has neither a non-blank content nor a
  non-blank path, and the call fails on the type of the content, not with the message
  that content or path is required. An element with both that follows a number is not
  reached: the call fails at index 0.
\<close>

theorem content_path_exclusive_counterexample:
  "\<not> hasContent numberContentF \<and> \<not> hasPath numberContentF
   \<and> fst (parseAndResolveResources
            (parseFrom [(arrayText [numberContentF_text], JArr [numberContentF])])
            (arrayText [numberContentF_text]) exampleWorld)
       = Inl (Error (lit ''Resource [0] \"f\": \"content\" must be a string when provided''))
   \<and> hasContent bothD \<and> hasPath bothD
   \<and> fst (parseAndResolveResources
            (parseFrom [(arrayText [seven_text, bothD_text], JArr [seven, bothD])])
            (arrayText [seven_text, bothD_text]) exampleWorld)
       = Inl (Error (lit ''Resource [0]: must be a JSON object''))"
  by code_simp

text \<open>
  Claim C3, when the files of the earlier elements can be read. Let every element
  before index \<open>k\<close> be valid and readable and let the element at index \<open>k\<close> be
  invalid. Then the call fails with the failure of that element, whose message starts
  with \<open>Resource [k]\<close>; the files read are those of the elements before \<open>k\<close>, so no
  later element is processed; and every input whose array has the same elements up to
  index \<open>k\<close> has the same outcome, whatever follows.
\<close>

theorem first_invalid_wins:
  assumes "parse [] = None" and "parse input = Some (JArr (pre @ bad # rest))"
    and "\<forall>x \<in> set pre. validSpec x \<and> readable (files w) x"
    and "\<not> validSpec bad"
  shows "\<exists>e. fst (parseAndResolveResources parse input w) = Inl e
           \<and> fst (resolveItem (length pre) bad w) = Inl e
           \<and> referencesIndex e (length pre)
           \<and> reads (snd (parseAndResolveResources parse input w))
               = reads w @ concat (map itemReads pre)
           \<and> (\<forall>input' rest'. parse input' = Some (JArr (pre @ bad # rest')) \<longrightarrow>
                 parseAndResolveResources parse input' w
                   = parseAndResolveResources parse input w)"
proof -
  from assms(4) obtain e where e: "fst (resolveItem (length pre) bad w) = Inl e"
    and ref: "referencesIndex e (length pre)"
    using resolveItem_invalid by blast
  have here: "parseAndResolveResources parse input w =
      (Inl e, w\<lparr>reads := reads w @ concat (map itemReads pre)\<rparr>)"
    using resolve_stops [OF assms(1-3) e] assms(4) by simp
  have other: "parseAndResolveResources parse input' w =
      parseAndResolveResources parse input w"
    if "parse input' = Some (JArr (pre @ bad # rest'))" for input' rest'
    using resolve_stops [OF assms(1) that assms(3) e] assms(4) here by simp
  from e ref here other show ?thesis by (intro exI [of _ e]) simp
qed

text \<open>
  A number at index 1, after an element read from \<open>f.txt\<close>, followed by a valid inline
  element in one input and by an element with a missing file in the other.
\<close>

theorem first_invalid_wins_witness:
  "parseFrom [(arrayText [fromFileB_text, seven_text, inlineA_text],
                 JArr [fromFileB, seven, inlineA]),
              (arrayText [fromFileB_text, seven_text, missingFileC_text],
                 JArr [fromFileB, seven, missingFileC])] [] = None
   \<and> validSpec fromFileB \<and> readable (files exampleWorld) fromFileB
   \<and> \<not> validSpec seven
   \<and> (\<exists>e. fst (parseAndResolveResources
                 (parseFrom [(arrayText [fromFileB_text, seven_text, inlineA_text],
                                JArr [fromFileB, seven, inlineA]),
                             (arrayText [fromFileB_text, seven_text, missingFileC_text],
                                JArr [fromFileB, seven, missingFileC])])
                 (arrayText [fromFileB_text, seven_text, inlineA_text]) exampleWorld) = Inl e
         \<and> referencesIndex e 1)
   \<and> reads (snd (parseAndResolveResources
                 (parseFrom [(arrayText [fromFileB_text, seven_text, inlineA_text],
                                JArr [fromFileB, seven, inlineA]),
                             (arrayText [fromFileB_text, seven_text, missingFileC_text],
                                JArr [fromFileB, seven, missingFileC])])
                 (arrayText [fromFileB_text, seven_text, inlineA_text]) exampleWorld))
       = [lit ''f.txt'']
   \<and> parseAndResolveResources
         (parseFrom [(arrayText [fromFileB_text, seven_text, inlineA_text],
                        JArr [fromFileB, seven, inlineA]),
                     (arrayText [fromFileB_text, seven_text, missingFileC_text],
                        JArr [fromFileB, seven, missingFileC])])
         (arrayText [fromFileB_text, seven_text, missingFileC_text]) exampleWorld
       = parseAndResolveResources
         (parseFrom [(arrayText [fromFileB_text, seven_text, inlineA_text],
                        JArr [fromFileB, seven, inlineA]),
                     (arrayText [fromFileB_text, seven_text, missingFileC_text],
                        JArr [fromFileB, seven, missingFileC])])
         (arrayText [fromFileB_text, seven_text, inlineA_text]) exampleWorld"
proof -
  let ?parse = "parseFrom [(arrayText [fromFileB_text, seven_text, inlineA_text],
                              JArr [fromFileB, seven, inlineA]),
                           (arrayText [fromFileB_text, seven_text, missingFileC_text],
                              JArr [fromFileB, seven, missingFileC])]"
  have h1: "?parse [] = None"
    by (simp add: parseFrom_def arrayText_def lit_def)
  have h2: "?parse (arrayText [fromFileB_text, seven_text, inlineA_text])
              = Some (JArr ([fromFileB] @ seven # [inlineA]))"
    by (simp add: parseFrom_def)
  have h2': "?parse (arrayText [fromFileB_text, seven_text, missingFileC_text])
              = Some (JArr ([fromFileB] @ seven # [missingFileC]))"
    by code_simp
  have h3: "\<forall>x \<in> set [fromFileB]. validSpec x \<and> readable (files exampleWorld) x"
    by code_simp
  have h4: "\<not> validSpec seven" by code_simp
  have r: "reads exampleWorld @ concat (map itemReads [fromFileB]) = [lit ''f.txt'']"
    by code_simp
  from first_invalid_wins [OF h1 h2 h3 h4] h2' r h1 h3 h4 show ?thesis
    by auto
qed

text \<open>
  The first invalid element is at index 1, but the valid element before it names a
  missing file: the call fails with a message for index 0, which does not reference
  index 1.
\<close>

theorem first_invalid_wins_counterexample:
  "validSpec missingFileC \<and> \<not> validSpec seven
   \<and> fst (parseAndResolveResources
            (parseFrom [(arrayText [missingFileC_text, seven_text], JArr [missingFileC, seven])])
            (arrayText [missingFileC_text, seven_text]) exampleWorld)
       = Inl (Error (lit
           ''Resource [0] \"c\": failed to read file \"missing.txt\": ENOENT: no such file or directory''))
   \<and> \<not> referencesIndex (Error (lit
           ''Resource [0] \"c\": failed to read file \"missing.txt\": ENOENT: no such file or directory'')) 1"
  by code_simp

text \<open>
  Claim C4. Let the loop reach a valid element that has a path: every element before it
  is valid and readable. If reading the file at its path fails with some cause, the
  call fails with the message
  \<open>Resource [i] "name": failed to read file "path": cause\<close>, which names the index,
  the name, the path and the cause; and the failed read is the last read of the call:
  no later element is processed and no list is returned.
\<close>

theorem read_failure_stops:
  assumes "parse [] = None" and "parse input = Some (JArr (pre @ item # rest))"
    and "\<forall>x \<in> set pre. validSpec x \<and> readable (files w) x"
    and "validSpec item" and "hasPath item"
    and "property item (lit ''path'') = Some (JStr p)"
    and "files w p = Inl cause"
  shows "\<exists>nm. property item (lit ''name'') = Some (JStr nm)
           \<and> fst (parseAndResolveResources parse input w) =
               Inl (Error (lit ''Resource ['' @ digits (length pre) @ lit ''] \"'' @ nm
                  @ lit ''\": failed to read file \"'' @ p @ lit ''\": '' @ cause))
           \<and> reads (snd (parseAndResolveResources parse input w))
               = reads w @ concat (map itemReads pre) @ [p]"
proof -
  from assms(4) obtain nm where nm: "property item (lit ''name'') = Some (JStr nm)"
    using validSpec_name by blast
  have "files w (asString (property item (lit ''path''))) = Inl cause"
    using assms(6,7) by simp
  from resolve_stops [OF assms(1-3) resolveItem_unreadable [OF assms(4,5) this]]
  have "parseAndResolveResources parse input w =
      (Inl (Error (resourceNamed (length pre) item @ lit '': failed to read file \"''
              @ asString (property item (lit ''path'')) @ lit ''\": '' @ cause)),
       w\<lparr>reads := reads w @ concat (map itemReads pre) @ itemReads item\<rparr>)"
    using assms(4) by simp
  then show ?thesis
    using nm assms(5,6)
    by (simp add: resourceNamed_text [OF nm] itemReads_def lit_def)
qed

text \<open>
  An element with a missing file at index 1, between an inline element and an element
  whose file exists: that file is never read.
\<close>

theorem read_failure_stops_witness:
  "parseFrom [(arrayText [inlineA_text, missingFileC_text, fromFileB_text],
                 JArr [inlineA, missingFileC, fromFileB])] [] = None
   \<and> validSpec inlineA \<and> readable (files exampleWorld) inlineA
   \<and> validSpec missingFileC \<and> hasPath missingFileC
   \<and> property missingFileC (lit ''path'') = Some (JStr (lit ''missing.txt''))
   \<and> files exampleWorld (lit ''missing.txt'') = Inl (lit ''ENOENT: no such file or directory'')
   \<and> fst (parseAndResolveResources
            (parseFrom [(arrayText [inlineA_text, missingFileC_text, fromFileB_text],
                           JArr [inlineA, missingFileC, fromFileB])])
            (arrayText [inlineA_text, missingFileC_text, fromFileB_text]) exampleWorld)
       = Inl (Error (lit
           ''Resource [1] \"c\": failed to read file \"missing.txt\": ENOENT: no such file or directory''))
   \<and> reads (snd (parseAndResolveResources
            (parseFrom [(arrayText [inlineA_text, missingFileC_text, fromFileB_text],
                           JArr [inlineA, missingFileC, fromFileB])])
            (arrayText [inlineA_text, missingFileC_text, fromFileB_text]) exampleWorld))
       = [lit ''missing.txt'']"
proof -
  let ?parse = "parseFrom [(arrayText [inlineA_text, missingFileC_text, fromFileB_text],
                              JArr [inlineA, missingFileC, fromFileB])]"
  have h1: "?parse [] = None"
    by (simp add: parseFrom_def arrayText_def lit_def)
  have h2: "?parse (arrayText [inlineA_text, missingFileC_text, fromFileB_text])
              = Some (JArr ([inlineA] @ missingFileC # [fromFileB]))"
    by (simp add: parseFrom_def)
  have h3: "\<forall>x \<in> set [inlineA]. validSpec x \<and> readable (files exampleWorld) x"
    by code_simp
  have h4: "validSpec missingFileC" by code_simp
  have h5: "hasPath missingFileC" by code_simp
  have h6: "property missingFileC (lit ''path'') = Some (JStr (lit ''missing.txt''))"
    by code_simp
  have h7: "files exampleWorld (lit ''missing.txt'')
              = Inl (lit ''ENOENT: no such file or directory'')"
    by code_simp
  have nc: "property missingFileC (lit ''name'') = Some (JStr (lit ''c''))" by code_simp
  have m: "lit ''Resource ['' @ digits (length [inlineA]) @ lit ''] \"'' @ lit ''c''
             @ lit ''\": failed to read file \"'' @ lit ''missing.txt'' @ lit ''\": ''
             @ lit ''ENOENT: no such file or directory''
           = lit ''Resource [1] \"c\": failed to read file \"missing.txt\": ENOENT: no such file or directory''"
    by code_simp
  have r: "reads exampleWorld @ concat (map itemReads [inlineA]) @ [lit ''missing.txt'']
             = [lit ''missing.txt'']"
    by code_simp
  from read_failure_stops [OF h1 h2 h3 h4 h5 h6 h7] nc m r h1 h3 h4 h5 h6 h7
  show ?thesis by auto
qed

text \<open>
  Claim C5, for the empty input. On the empty input the result is absent, whatever the
  parser is, and the world is unchanged: the input is not parsed and no file is read.
\<close>

theorem resolve_empty_input:
  "parseAndResolveResources parse [] w = (Inr None, w)"
  by (simp add: parseAndResolveResources_def)

text \<open>
  A single blank is not the empty input: it is handed to the parser, which rejects it,
  and the call fails.
\<close>

theorem resolve_blank_input_counterexample:
  "lit '' '' \<noteq> [] \<and> trim (lit '' '') = []
   \<and> parseFrom [(arrayText [], JArr [])] (lit '' '') = None
   \<and> fst (parseAndResolveResources (parseFrom [(arrayText [], JArr [])]) (lit '' '')
            exampleWorld)
       = Inl (Error (lit ''Input \"resources\" is not valid JSON''))"
  by code_simp

text \<open>
  Claim C6. Every result that is not absent is a non-empty list. When the loop has
  processed all the elements of the array and produced the sequence \<open>out\<close>, the
  result is absent if \<open>out\<close> is empty, and \<open>out\<close> otherwise; and \<open>out\<close> is empty
  exactly when the array is empty.
\<close>

theorem absent_or_nonempty:
  "(\<forall>rs. fst (parseAndResolveResources parse input w) = Inr (Some rs) \<longrightarrow> rs \<noteq> [])
   \<and> (parse [] = None \<longrightarrow> parse input = Some (JArr xs) \<longrightarrow>
        fst (resolveLoop 0 xs [] w) = Inr out \<longrightarrow>
          fst (parseAndResolveResources parse input w)
            = Inr (if out = [] then None else Some out)
          \<and> (out = [] \<longleftrightarrow> xs = []))"
proof -
  have never_empty: "rs \<noteq> []"
    if "fst (parseAndResolveResources parse input w) = Inr (Some rs)" for rs
    using that
    by (auto simp: parseAndResolveResources_def
          split: if_splits option.splits prod.splits sum.splits)
  have after_loop: "fst (parseAndResolveResources parse input w)
            = Inr (if out = [] then None else Some out) \<and> (out = [] \<longleftrightarrow> xs = [])"
    if "parse [] = None" and "parse input = Some (JArr xs)"
      and "fst (resolveLoop 0 xs [] w) = Inr out"
  proof -
    have "input \<noteq> []" using that(1,2) by (rule parsed_nonempty)
    with that(2,3) resolveLoop_Inr_result [OF that(3)] show ?thesis
      by (simp add: resolve_array)
  qed
  from never_empty after_loop show ?thesis by blast
qed

text \<open>The empty array, and an array of two elements.\<close>

theorem absent_or_nonempty_witness:
  "parseFrom [(arrayText [], JArr []),
              (arrayText [inlineA_text, fromFileB_text], JArr [inlineA, fromFileB])] [] = None
   \<and> fst (resolveLoop 0 [] [] exampleWorld) = Inr []
   \<and> fst (parseAndResolveResources
            (parseFrom [(arrayText [], JArr []),
                        (arrayText [inlineA_text, fromFileB_text], JArr [inlineA, fromFileB])])
            (arrayText []) exampleWorld) = Inr None
   \<and> fst (resolveLoop 0 [inlineA, fromFileB] [] exampleWorld)
       = Inr [\<lparr>name = lit ''a'', content = lit ''  hello '', visibleToCustomers = True\<rparr>,
              \<lparr>name = lit ''b'', content = lit ''from file'', visibleToCustomers = False\<rparr>]
   \<and> fst (parseAndResolveResources
            (parseFrom [(arrayText [], JArr []),
                        (arrayText [inlineA_text, fromFileB_text], JArr [inlineA, fromFileB])])
            (arrayText [inlineA_text, fromFileB_text]) exampleWorld)
       = Inr (Some
             [\<lparr>name = lit ''a'', content = lit ''  hello '', visibleToCustomers = True\<rparr>,
              \<lparr>name = lit ''b'', content = lit ''from file'', visibleToCustomers = False\<rparr>])"
proof -
  let ?parse = "parseFrom [(arrayText [], JArr []),
                  (arrayText [inlineA_text, fromFileB_text], JArr [inlineA, fromFileB])]"
  have h1: "?parse [] = None"
    by (simp add: parseFrom_def arrayText_def lit_def)
  have h2: "?parse (arrayText []) = Some (JArr [])"
    by (simp add: parseFrom_def)
  have h2': "?parse (arrayText [inlineA_text, fromFileB_text])
               = Some (JArr [inlineA, fromFileB])"
    by code_simp
  have h3: "fst (resolveLoop 0 ([] :: nat json list) [] exampleWorld) = Inr []"
    by simp
  have h3': "fst (resolveLoop 0 [inlineA, fromFileB] [] exampleWorld)
       = Inr [\<lparr>name = lit ''a'', content = lit ''  hello '', visibleToCustomers = True\<rparr>,
              \<lparr>name = lit ''b'', content = lit ''from file'', visibleToCustomers = False\<rparr>]"
    by code_simp
  have absent: "fst (parseAndResolveResources ?parse (arrayText []) exampleWorld) = Inr None"
    using absent_or_nonempty [of ?parse "arrayText []" exampleWorld "[]" "[]"] h1 h2 h3
    by simp
  have present: "fst (parseAndResolveResources ?parse
                   (arrayText [inlineA_text, fromFileB_text]) exampleWorld)
       = Inr (Some
             [\<lparr>name = lit ''a'', content = lit ''  hello '', visibleToCustomers = True\<rparr>,
              \<lparr>name = lit ''b'', content = lit ''from file'', visibleToCustomers = False\<rparr>])"
    using absent_or_nonempty [of ?parse "arrayText [inlineA_text, fromFileB_text]"
        exampleWorld "[inlineA, fromFileB]"
        "[\<lparr>name = lit ''a'', content = lit ''  hello '', visibleToCustomers = True\<rparr>,
          \<lparr>name = lit ''b'', content = lit ''from file'', visibleToCustomers = False\<rparr>]"]
      h1 h2' h3'
    by simp
  from h1 h3 h3' absent present show ?thesis by simp
qed

text \<open>
  Claim C7. In a successful result, the resource that comes from an element with a
  non-blank inline content has that content exactly as given: trimming decides
  blankness only, and the stored string is not trimmed.
\<close>

theorem inline_content_untrimmed:
  assumes "parse input = Some (JArr xs)"
    and "fst (parseAndResolveResources parse input w) = Inr (Some rs)"
    and "i < length xs"
    and "property (xs ! i) (lit ''content'') = Some (JStr c)"
    and "trim c \<noteq> []"
  shows "i < length rs \<and> content (rs ! i) = c"
proof -
  from resolve_Some_result [OF assms(1,2)]
  have rs: "rs = map (resourceOf (files w)) xs"
    and ok: "\<forall>x \<in> set xs. validSpec x \<and> readable (files w) x"
    by simp_all
  from ok assms(3) have v: "validSpec (xs ! i)" by simp
  have hc: "hasContent (xs ! i)"
    using assms(4,5) by (simp add: hasContent_iff)
  with v have "\<not> hasPath (xs ! i)" by (simp add: validSpec_def)
  then have "content (resourceOf (files w) (xs ! i)) = c"
    using assms(4) by (simp add: resourceOf_def)
  with rs assms(3) show ?thesis by simp
qed

text \<open>
  The content \<open>"  hello "\<close> trims to \<open>"hello"\<close> and is stored with its blanks.
\<close>

theorem inline_content_untrimmed_witness:
  "parseFrom [(arrayText [inlineA_text, fromFileB_text], JArr [inlineA, fromFileB])]
     (arrayText [inlineA_text, fromFileB_text]) = Some (JArr [inlineA, fromFileB])
   \<and> fst (parseAndResolveResources
            (parseFrom [(arrayText [inlineA_text, fromFileB_text], JArr [inlineA, fromFileB])])
            (arrayText [inlineA_text, fromFileB_text]) exampleWorld)
       = Inr (Some
             [\<lparr>name = lit ''a'', content = lit ''  hello '', visibleToCustomers = True\<rparr>,
              \<lparr>name = lit ''b'', content = lit ''from file'', visibleToCustomers = False\<rparr>])
   \<and> (0::nat) < length [inlineA, fromFileB]
   \<and> property ([inlineA, fromFileB] ! 0) (lit ''content'') = Some (JStr (lit ''  hello ''))
   \<and> trim (lit ''  hello '') = lit ''hello''
   \<and> content ([\<lparr>name = lit ''a'', content = lit ''  hello '', visibleToCustomers = True\<rparr>,
                \<lparr>name = lit ''b'', content = lit ''from file'', visibleToCustomers = False\<rparr>]
               ! 0) = lit ''  hello ''"
proof -
  let ?parse = "parseFrom [(arrayText [inlineA_text, fromFileB_text],
                              JArr [inlineA, fromFileB])]"
  have h1: "?parse (arrayText [inlineA_text, fromFileB_text])
              = Some (JArr [inlineA, fromFileB])"
    by (simp add: parseFrom_def)
  have h2: "fst (parseAndResolveResources ?parse
                   (arrayText [inlineA_text, fromFileB_text]) exampleWorld)
       = Inr (Some
             [\<lparr>name = lit ''a'', content = lit ''  hello '', visibleToCustomers = True\<rparr>,
              \<lparr>name = lit ''b'', content = lit ''from file'', visibleToCustomers = False\<rparr>])"
    by code_simp
  have h3: "(0::nat) < length [inlineA, fromFileB]" by simp
  have h4: "property ([inlineA, fromFileB] ! 0) (lit ''content'')
              = Some (JStr (lit ''  hello ''))"
    by code_simp
  have t: "trim (lit ''  hello '') = lit ''hello''" by code_simp
  have h5: "trim (lit ''  hello '') \<noteq> []" by code_simp
  from inline_content_untrimmed [of ?parse "arrayText [inlineA_text, fromFileB_text]"
         "[inlineA, fromFileB]" exampleWorld _ 0 "lit ''  hello ''", OF h1 h2 h3 h4 h5]
    h1 h2 h3 h4 t
  show ?thesis by blast
qed

text \<open>
  Claim C8. The outcome of a call (absent, a failure, or a sequence) depends on the
  world only through its files, and a call leaves the files as they are. So two calls
  with the same input, in worlds with the same files, have the same outcome.
\<close>

theorem same_files_same_outcome:
  assumes "files w' = files w"
  shows "fst (parseAndResolveResources parse input w')
           = fst (parseAndResolveResources parse input w)
         \<and> files (snd (parseAndResolveResources parse input w)) = files w"
proof
  show "fst (parseAndResolveResources parse input w')
          = fst (parseAndResolveResources parse input w)"
    using assms by (rule resolve_fst_cong)
  show "files (snd (parseAndResolveResources parse input w)) = files w"
    by (rule resolve_files)
qed

text \<open>
  A second call, made in the world that the first call left behind, in which \<open>f.txt\<close>
  has been read once.
\<close>

theorem same_files_same_outcome_witness:
  "files (snd (parseAndResolveResources
            (parseFrom [(arrayText [inlineA_text, fromFileB_text], JArr [inlineA, fromFileB])])
            (arrayText [inlineA_text, fromFileB_text]) exampleWorld)) = files exampleWorld
   \<and> reads (snd (parseAndResolveResources
            (parseFrom [(arrayText [inlineA_text, fromFileB_text], JArr [inlineA, fromFileB])])
            (arrayText [inlineA_text, fromFileB_text]) exampleWorld)) = [lit ''f.txt'']
   \<and> fst (parseAndResolveResources
            (parseFrom [(arrayText [inlineA_text, fromFileB_text], JArr [inlineA, fromFileB])])
            (arrayText [inlineA_text, fromFileB_text])
            (snd (parseAndResolveResources
               (parseFrom [(arrayText [inlineA_text, fromFileB_text],
                              JArr [inlineA, fromFileB])])
               (arrayText [inlineA_text, fromFileB_text]) exampleWorld)))
       = fst (parseAndResolveResources
            (parseFrom [(arrayText [inlineA_text, fromFileB_text], JArr [inlineA, fromFileB])])
            (arrayText [inlineA_text, fromFileB_text]) exampleWorld)"
proof -
  let ?parse = "parseFrom [(arrayText [inlineA_text, fromFileB_text],
                              JArr [inlineA, fromFileB])]"
  let ?input = "arrayText [inlineA_text, fromFileB_text]"
  let ?after = "snd (parseAndResolveResources ?parse ?input exampleWorld)"
  have unchanged: "files ?after = files exampleWorld"
    using same_files_same_outcome [of exampleWorld exampleWorld ?parse ?input] by simp
  have log: "reads ?after = [lit ''f.txt'']" by code_simp
  have again: "fst (parseAndResolveResources ?parse ?input ?after)
                 = fst (parseAndResolveResources ?parse ?input exampleWorld)"
    using same_files_same_outcome [OF unchanged, of ?parse ?input] by simp
  from unchanged log again show ?thesis by simp
qed

text \<open>
  Claim C9. An element whose name is a non-empty string of whitespace passes the guard
  on the name, so it does not fail with the message that the name is required; and in
  a successful result the resource that comes from it has that name exactly as given.
\<close>

theorem blank_name_kept:
  assumes "parse input = Some (JArr xs)"
    and "i < length xs"
    and "property (xs ! i) (lit ''name'') = Some (JStr nm)"
    and "nm \<noteq> []" and "trim nm = []"
  shows "\<not> nameRejected (property (xs ! i) (lit ''name''))
         \<and> fst (resolveItem i (xs ! i) w)
             \<noteq> Inl (Error (resourceAt i @ lit '': \"name\" is required and must be a string''))
         \<and> (\<forall>rs. fst (parseAndResolveResources parse input w) = Inr (Some rs) \<longrightarrow>
               i < length rs \<and> name (rs ! i) = nm)"
proof -
  have passes: "\<not> nameRejected (property (xs ! i) (lit ''name''))"
    using assms(3,4) by simp
  obtain kvs where obj: "xs ! i = JObj kvs"
    using assms(3) by (cases "xs ! i") simp_all
  have no_name_error: "fst (resolveItem i (xs ! i) w)
      \<noteq> Inl (Error (resourceAt i @ lit '': \"name\" is required and must be a string''))"
    using passes obj
    by (auto simp: resolveItem_def resourceNamed_def readFile_def lit_def split: sum.splits)
  have kept: "i < length rs \<and> name (rs ! i) = nm"
    if "fst (parseAndResolveResources parse input w) = Inr (Some rs)" for rs
  proof -
    from resolve_Some_result [OF assms(1) that]
    have "rs = map (resourceOf (files w)) xs" by simp
    with assms(2,3) show ?thesis by (simp add: resourceOf_def)
  qed
  from passes no_name_error kept show ?thesis by blast
qed

text \<open>The name \<open>" "\<close>.\<close>

theorem blank_name_kept_witness:
  "parseFrom [(arrayText [blankNameG_text], JArr [blankNameG])] (arrayText [blankNameG_text])
     = Some (JArr [blankNameG])
   \<and> (0::nat) < length [blankNameG]
   \<and> property ([blankNameG] ! 0) (lit ''name'') = Some (JStr (lit '' ''))
   \<and> lit '' '' \<noteq> [] \<and> trim (lit '' '') = []
   \<and> \<not> nameRejected (property ([blankNameG] ! 0) (lit ''name''))
   \<and> fst (parseAndResolveResources
            (parseFrom [(arrayText [blankNameG_text], JArr [blankNameG])])
            (arrayText [blankNameG_text]) exampleWorld)
       = Inr (Some [\<lparr>name = lit '' '', content = lit ''x'', visibleToCustomers = True\<rparr>])
   \<and> name ([\<lparr>name = lit '' '', content = lit ''x'', visibleToCustomers = True\<rparr>] ! 0)
       = lit '' ''"
proof -
  let ?parse = "parseFrom [(arrayText [blankNameG_text], JArr [blankNameG])]"
  have h1: "?parse (arrayText [blankNameG_text]) = Some (JArr [blankNameG])"
    by (simp add: parseFrom_def)
  have h2: "(0::nat) < length [blankNameG]" by simp
  have h3: "property ([blankNameG] ! 0) (lit ''name'') = Some (JStr (lit '' ''))"
    by code_simp
  have h4: "lit '' '' \<noteq> []" by (simp add: lit_def)
  have h5: "trim (lit '' '') = []" by code_simp
  have res: "fst (parseAndResolveResources ?parse (arrayText [blankNameG_text]) exampleWorld)
       = Inr (Some [\<lparr>name = lit '' '', content = lit ''x'', visibleToCustomers = True\<rparr>])"
    by code_simp
  from blank_name_kept [of ?parse "arrayText [blankNameG_text]" "[blankNameG]" 0
         "lit '' ''" exampleWorld, OF h1 h2 h3 h4 h5]
    res h1 h2 h3 h4 h5
  show ?thesis by blast
qed

text \<open>
  Claim C10. Two inputs whose arrays have the same length and agree, element by
  element, on \<open>name\<close>, \<open>content\<close>, \<open>path\<close> and \<open>visibleToCustomers\<close> have the same
  outcome and leave the same world: no other key of an element is read.
\<close>

theorem unrecognized_keys_ignored:
  assumes "parse [] = None"
    and "parse input = Some (JArr xs)" and "parse input' = Some (JArr ys)"
    and "list_all2 sameRecognized xs ys"
  shows "parseAndResolveResources parse input' w = parseAndResolveResources parse input w"
proof -
  have here: "input \<noteq> []" using assms(1,2) by (rule parsed_nonempty)
  have there: "input' \<noteq> []" using assms(1,3) by (rule parsed_nonempty)
  have loop: "resolveLoop 0 xs [] w = resolveLoop 0 ys [] w"
    using assms(4) by (rule resolveLoop_sameRecognized)
  have a: "parseAndResolveResources parse input w =
      (case fst (resolveLoop 0 xs [] w) of
         Inl e \<Rightarrow> (Inl e, snd (resolveLoop 0 xs [] w))
       | Inr rs \<Rightarrow> (Inr (if rs = [] then None else Some rs), snd (resolveLoop 0 xs [] w)))"
    using here assms(2) by (rule resolve_array)
  have b: "parseAndResolveResources parse input' w =
      (case fst (resolveLoop 0 ys [] w) of
         Inl e \<Rightarrow> (Inl e, snd (resolveLoop 0 ys [] w))
       | Inr rs \<Rightarrow> (Inr (if rs = [] then None else Some rs), snd (resolveLoop 0 ys [] w)))"
    using there assms(3) by (rule resolve_array)
  show ?thesis by (simp only: a b loop)
qed

text \<open>
  The first element of the second input has the keys \<open>note\<close> and \<open>kind\<close> in
  addition.
\<close>

theorem unrecognized_keys_ignored_witness:
  "parseFrom [(arrayText [inlineA_text, fromFileB_text], JArr [inlineA, fromFileB]),
              (arrayText [extraKeysA_text, fromFileB_text], JArr [extraKeysA, fromFileB])] []
     = None
   \<and> list_all2 sameRecognized [inlineA, fromFileB] [extraKeysA, fromFileB]
   \<and> inlineA \<noteq> extraKeysA
   \<and> parseAndResolveResources
         (parseFrom [(arrayText [inlineA_text, fromFileB_text], JArr [inlineA, fromFileB]),
                     (arrayText [extraKeysA_text, fromFileB_text],
                        JArr [extraKeysA, fromFileB])])
         (arrayText [extraKeysA_text, fromFileB_text]) exampleWorld
       = parseAndResolveResources
         (parseFrom [(arrayText [inlineA_text, fromFileB_text], JArr [inlineA, fromFileB]),
                     (arrayText [extraKeysA_text, fromFileB_text],
                        JArr [extraKeysA, fromFileB])])
         (arrayText [inlineA_text, fromFileB_text]) exampleWorld
   \<and> fst (parseAndResolveResources
         (parseFrom [(arrayText [inlineA_text, fromFileB_text], JArr [inlineA, fromFileB]),
                     (arrayText [extraKeysA_text, fromFileB_text],
                        JArr [extraKeysA, fromFileB])])
         (arrayText [extraKeysA_text, fromFileB_text]) exampleWorld)
       = Inr (Some
             [\<lparr>name = lit ''a'', content = lit ''  hello '', visibleToCustomers = True\<rparr>,
              \<lparr>name = lit ''b'', content = lit ''from file'', visibleToCustomers = False\<rparr>])"
proof -
  let ?parse = "parseFrom
     [(arrayText [inlineA_text, fromFileB_text], JArr [inlineA, fromFileB]),
      (arrayText [extraKeysA_text, fromFileB_text], JArr [extraKeysA, fromFileB])]"
  have h1: "?parse [] = None"
    by (simp add: parseFrom_def arrayText_def lit_def)
  have h2: "?parse (arrayText [inlineA_text, fromFileB_text])
              = Some (JArr [inlineA, fromFileB])"
    by (simp add: parseFrom_def)
  have h3: "?parse (arrayText [extraKeysA_text, fromFileB_text])
              = Some (JArr [extraKeysA, fromFileB])"
    by code_simp
  have h4: "list_all2 sameRecognized [inlineA, fromFileB] [extraKeysA, fromFileB]"
    by code_simp
  have differ: "inlineA \<noteq> extraKeysA" by code_simp
  have res: "fst (parseAndResolveResources ?parse
                   (arrayText [extraKeysA_text, fromFileB_text]) exampleWorld)
       = Inr (Some
             [\<lparr>name = lit ''a'', content = lit ''  hello '', visibleToCustomers = True\<rparr>,
              \<lparr>name = lit ''b'', content = lit ''from file'', visibleToCustomers = False\<rparr>])"
    by code_simp
  from unrecognized_keys_ignored [OF h1 h2 h3 h4, of exampleWorld] h1 h4 differ res
  show ?thesis by simp
qed

end
